theory Spec2Isabelle
  imports Complex_Main "HOL-Library.Word"
begin

section \<open>JavaScript values as the request handlers see them\<close>

text \<open>
  The router of \<^verbatim>\<open>src/routes/products.js\<close> works on values that a body parser and the
  data-access module hand to it. A JavaScript string is a sequence of UTF-16 code units.
  A number is \<^verbatim>\<open>NaN\<close>, an infinity or a finite value; finite values are kept as the real
  number they denote (every double is one); where a string is read as a number, the
  value of the literal is rounded to a double.
\<close>

type_synonym jsstring = "16 word list"

definition js :: "string \<Rightarrow> jsstring" where
  "js s = map (\<lambda>c. of_nat (of_char c)) s"

datatype jsnum = NaN | Fin real | PosInf | NegInf

datatype json =
    JNull
  | JBool bool
  | JNum jsnum
  | JStr jsstring
  | JArr "json list"
  | JObj "(jsstring \<times> json) list"

text \<open>An object lists its own properties, each key once; none of them is a function,
  as in every value parsed from a request body. A value that may be \<^verbatim>\<open>undefined\<close> is an
  option: \<open>None\<close> is \<^verbatim>\<open>undefined\<close>.\<close>

type_synonym jsval = "json option"

datatype js_error = TypeError

text \<open>\<^verbatim>\<open>!v\<close> is the negation of ToBoolean: \<^verbatim>\<open>undefined\<close>, \<^verbatim>\<open>null\<close>, \<^verbatim>\<open>false\<close>,
  \<^verbatim>\<open>0\<close>, \<^verbatim>\<open>NaN\<close> and the empty string are falsy, every array and object is truthy.\<close>

fun ToBoolean :: "jsval \<Rightarrow> bool" where
  "ToBoolean None = False"
| "ToBoolean (Some JNull) = False"
| "ToBoolean (Some (JBool b)) = b"
| "ToBoolean (Some (JNum n)) = (n \<noteq> NaN \<and> n \<noteq> Fin 0)"
| "ToBoolean (Some (JStr s)) = (s \<noteq> [])"
| "ToBoolean (Some (JArr xs)) = True"
| "ToBoolean (Some (JObj kvs)) = True"

subsection \<open>Strings: white space and \<^verbatim>\<open>trim\<close>\<close>

text \<open>The code units that \<^verbatim>\<open>String.prototype.trim\<close> strips and that may surround a
  numeric string: WhiteSpace and LineTerminator of ECMAScript.\<close>

definition is_ws :: "16 word \<Rightarrow> bool" where
  "is_ws c = (c \<in> set [0x9, 0xA, 0xB, 0xC, 0xD, 0x20, 0xA0, 0x1680, 0x2028, 0x2029,
                         0x202F, 0x205F, 0x3000, 0xFEFF]
              \<or> (0x2000 \<le> c \<and> c \<le> 0x200A))"

definition trim :: "jsstring \<Rightarrow> jsstring" where
  "trim s = rev (dropWhile is_ws (rev (dropWhile is_ws s)))"

text \<open>\<^verbatim>\<open>v.trim()\<close>: only a string has a callable \<^verbatim>\<open>trim\<close>. On a number, a boolean or
  an array the property is \<^verbatim>\<open>undefined\<close>, on a parsed object it is absent or a value that
  is not a function, and on \<^verbatim>\<open>undefined\<close> and \<^verbatim>\<open>null\<close> the property read itself fails:
  each of these raises a TypeError.\<close>

fun call_trim :: "jsval \<Rightarrow> js_error + jsstring" where
  "call_trim (Some (JStr s)) = Inr (trim s)"
| "call_trim v = Inl TypeError"

subsection \<open>Numeric coercion\<close>

definition is_digit :: "16 word \<Rightarrow> bool" where
  "is_digit c = (0x30 \<le> c \<and> c \<le> 0x39)"

definition radix_digit :: "16 word \<Rightarrow> int option" where
  "radix_digit c =
     (if 0x30 \<le> c \<and> c \<le> 0x39 then Some (uint c - 48)
      else if 0x61 \<le> c \<and> c \<le> 0x66 then Some (uint c - 87)
      else if 0x41 \<le> c \<and> c \<le> 0x46 then Some (uint c - 55)
      else None)"

text \<open>A non-empty run of digits of the given radix, as an integer.\<close>

definition radix_int :: "int \<Rightarrow> jsstring \<Rightarrow> int option" where
  "radix_int b s =
     (if s \<noteq> [] \<and> list_all (\<lambda>c. case radix_digit c of Some d \<Rightarrow> d < b | None \<Rightarrow> False) s
      then Some (foldl (\<lambda>n c. n * b + the (radix_digit c)) 0 s)
      else None)"

text \<open>NonDecimalIntegerLiteral: \<^verbatim>\<open>0x\<close>, \<^verbatim>\<open>0o\<close>, \<^verbatim>\<open>0b\<close> (either case) and digits.
  The outer \<open>None\<close> says that the string has no such prefix.\<close>

fun nondecimal :: "jsstring \<Rightarrow> int option option" where
  "nondecimal (z # p # ds) =
     (if z \<noteq> 0x30 then None
      else if p = 0x78 \<or> p = 0x58 then Some (radix_int 16 ds)
      else if p = 0x6F \<or> p = 0x4F then Some (radix_int 8 ds)
      else if p = 0x62 \<or> p = 0x42 then Some (radix_int 2 ds)
      else None)"
| "nondecimal s = None"

text \<open>ExponentPart, optional: \<^verbatim>\<open>e\<close> or \<^verbatim>\<open>E\<close>, an optional sign, digits.\<close>

fun exponent_part :: "jsstring \<Rightarrow> int option" where
  "exponent_part [] = Some 0"
| "exponent_part (e # r) =
     (if e \<noteq> 0x65 \<and> e \<noteq> 0x45 then None
      else case r of
        [] \<Rightarrow> None
      | s # ds \<Rightarrow>
          if s = 0x2B then radix_int 10 ds
          else if s = 0x2D then map_option uminus (radix_int 10 ds)
          else radix_int 10 r)"

definition scale10 :: "real \<Rightarrow> int \<Rightarrow> real" where
  "scale10 x e = (if 0 \<le> e then x * 10 ^ nat e else x / 10 ^ nat (- e))"

text \<open>Powers of two with an integer exponent.\<close>

definition pow2 :: "int \<Rightarrow> real" where
  "pow2 e = (if 0 \<le> e then 2 ^ nat e else 1 / 2 ^ nat (- e))"

text \<open>The exponent of the binade of a double: the largest \<open>e\<close> from \<open>lo\<close> up to, not
  including, \<open>hi\<close> with \<open>pow2 e \<le> x\<close>, found by bisection, and \<open>lo\<close> when there is
  none (the subnormal range, for \<open>lo = - 1022\<close>).\<close>

function binary_exponent :: "real \<Rightarrow> int \<Rightarrow> int \<Rightarrow> int" where
  "binary_exponent x lo hi =
     (if hi - lo \<le> 1 then lo
      else if pow2 ((lo + hi) div 2) \<le> x then binary_exponent x ((lo + hi) div 2) hi
      else binary_exponent x lo ((lo + hi) div 2))"
  by pat_completeness auto
termination
  by (relation "measure (\<lambda>(x, lo, hi). nat (hi - lo))") auto

declare binary_exponent.simps [simp del]

text \<open>The nearest integer, a tie going to the even one.\<close>

definition round_half_even :: "real \<Rightarrow> int" where
  "round_half_even q =
     (if q - of_int \<lfloor>q\<rfloor> < 1 / 2 then \<lfloor>q\<rfloor>
      else if 1 / 2 < q - of_int \<lfloor>q\<rfloor> then \<lfloor>q\<rfloor> + 1
      else if even \<lfloor>q\<rfloor> then \<lfloor>q\<rfloor>
      else \<lfloor>q\<rfloor> + 1)"

text \<open>The Number value for a real: the nearest IEEE 754 double, a tie going to the even
  significand. Doubles have 53 significant bits, so in the binade of exponent \<open>e\<close> they
  are the multiples of \<open>pow2 (e - 52)\<close>, and below \<open>pow2 (- 1022)\<close> the multiples of
  \<open>pow2 (- 1074)\<close>: a value of at most \<open>pow2 (- 1075)\<close> becomes 0. A value that is at
  least half a step above the largest double becomes an infinity. The rounding is the
  correct one at any number of digits, as the engines that run the router do it.\<close>

definition number_value :: "real \<Rightarrow> jsnum" where
  "number_value x =
     (if pow2 1024 - pow2 970 \<le> \<bar>x\<bar> then (if 0 < x then PosInf else NegInf)
      else Fin (of_int (round_half_even (x / pow2 (binary_exponent \<bar>x\<bar> (- 1022) 1024 - 52)))
                * pow2 (binary_exponent \<bar>x\<bar> (- 1022) 1024 - 52)))"

text \<open>StrUnsignedDecimalLiteral: \<^verbatim>\<open>Infinity\<close>, or digits with an optional fraction and
  exponent, at least one digit before or after the point.\<close>

definition unsigned_decimal :: "jsstring \<Rightarrow> jsnum" where
  "unsigned_decimal s =
     (if s = js ''Infinity'' then PosInf
      else
        let ip = takeWhile is_digit s;
            r1 = dropWhile is_digit s;
            dot = (case r1 of [] \<Rightarrow> False | c # r \<Rightarrow> c = 0x2E);
            fp = (if dot then takeWhile is_digit (tl r1) else []);
            r2 = (if dot then dropWhile is_digit (tl r1) else r1)
        in if ip = [] \<and> fp = [] then NaN
           else case exponent_part r2 of
             None \<Rightarrow> NaN
           | Some e \<Rightarrow>
               number_value
                 (scale10 (of_int (the (radix_int 10 (ip @ fp))) / 10 ^ length fp) e))"

fun negate :: "jsnum \<Rightarrow> jsnum" where
  "negate NaN = NaN"
| "negate (Fin x) = Fin (- x)"
| "negate PosInf = NegInf"
| "negate NegInf = PosInf"

text \<open>StringToNumber: the value of a string used as a number. White space around the
  literal is dropped, the empty string is 0, and a string that is no numeric literal
  is \<^verbatim>\<open>NaN\<close>. The mathematical value of the literal is rounded to a double
  (\<open>number_value\<close>), so a literal too small for a double, such as \<^verbatim>\<open>1e-324\<close>, is 0.\<close>

definition StringToNumber :: "jsstring \<Rightarrow> jsnum" where
  "StringToNumber str =
     (case trim str of
        [] \<Rightarrow> Fin 0
      | c # r \<Rightarrow>
          (case nondecimal (c # r) of
             Some None \<Rightarrow> NaN
           | Some (Some n) \<Rightarrow> number_value (of_int n)
           | None \<Rightarrow>
               if c = 0x2B then unsigned_decimal r
               else if c = 0x2D then negate (unsigned_decimal r)
               else unsigned_decimal (c # r)))"

text \<open>ToString of a parsed value raises a TypeError exactly when it reaches an object
  with an own property \<^verbatim>\<open>toString\<close>: the property hides \<^verbatim>\<open>Object.prototype.toString\<close>,
  its value is not callable, and the inherited \<^verbatim>\<open>valueOf\<close> returns the object itself.
  \<^verbatim>\<open>Array.prototype.join\<close> converts every element other than \<^verbatim>\<open>null\<close>.\<close>

fun toString_throws :: "json \<Rightarrow> bool" where
  "toString_throws (JObj kvs) = (js ''toString'' \<in> set (map fst kvs))"
| "toString_throws (JArr xs) = list_ex toString_throws xs"
| "toString_throws v = False"

text \<open>The number that the string of an array element stands for, that is
  StringToNumber of the array \<^verbatim>\<open>[v]\<close> joined with commas: \<^verbatim>\<open>null\<close> gives the empty
  string, a number gives a string that reads back as the same number, an object gives
  \<^verbatim>\<open>[object Object]\<close>, and two or more elements give a string with a comma in it.\<close>

fun element_number :: "json \<Rightarrow> jsnum" where
  "element_number JNull = Fin 0"
| "element_number (JBool b) = NaN"
| "element_number (JNum n) = n"
| "element_number (JStr s) = StringToNumber s"
| "element_number (JObj kvs) = NaN"
| "element_number (JArr []) = Fin 0"
| "element_number (JArr [x]) = element_number x"
| "element_number (JArr (x # y # zs)) = NaN"

text \<open>ToNumber, as \<^verbatim>\<open>isNaN(v)\<close> and \<^verbatim>\<open>v <= 0\<close> apply it to their operand.\<close>

fun ToNumber :: "jsval \<Rightarrow> js_error + jsnum" where
  "ToNumber None = Inr NaN"
| "ToNumber (Some JNull) = Inr (Fin 0)"
| "ToNumber (Some (JBool b)) = Inr (Fin (if b then 1 else 0))"
| "ToNumber (Some (JNum n)) = Inr n"
| "ToNumber (Some (JStr s)) = Inr (StringToNumber s)"
| "ToNumber (Some (JArr xs)) =
     (if toString_throws (JArr xs) then Inl TypeError else Inr (element_number (JArr xs)))"
| "ToNumber (Some (JObj kvs)) =
     (if toString_throws (JObj kvs) then Inl TypeError else Inr NaN)"

text \<open>\<^verbatim>\<open>x < y\<close> on numbers; \<open>None\<close> is the undefined result of a comparison with
  \<^verbatim>\<open>NaN\<close>.\<close>

fun num_less :: "jsnum \<Rightarrow> jsnum \<Rightarrow> bool option" where
  "num_less NaN y = None"
| "num_less x NaN = None"
| "num_less (Fin a) (Fin b) = Some (a < b)"
| "num_less PosInf y = Some False"
| "num_less x PosInf = Some True"
| "num_less x NegInf = Some False"
| "num_less NegInf y = Some True"

definition isNaN :: "jsval \<Rightarrow> js_error + bool" where
  "isNaN v = (case ToNumber v of Inl e \<Rightarrow> Inl e | Inr n \<Rightarrow> Inr (n = NaN))"

text \<open>\<^verbatim>\<open>v <= 0\<close>: true when \<^verbatim>\<open>0 < v\<close> is false, and false when it is true or
  undefined.\<close>

definition le_zero :: "jsval \<Rightarrow> js_error + bool" where
  "le_zero v =
     (case ToNumber v of
        Inl e \<Rightarrow> Inl e
      | Inr n \<Rightarrow> Inr (num_less (Fin 0) n = Some False))"

text \<open>\<^verbatim>\<open>a || b\<close> where the right operand may raise: it is evaluated only when the
  left one is false.\<close>

definition or_else :: "bool \<Rightarrow> js_error + bool \<Rightarrow> js_error + bool" where
  "or_else a b = (if a then Inr True else b)"

section \<open>Requests and responses\<close>

text \<open>Of a request the router reads \<^verbatim>\<open>req.body\<close> and \<^verbatim>\<open>req.params.id\<close>. The response
  object keeps the status code set by \<^verbatim>\<open>res.status\<close> (200 until then) and the list of
  responses sent, so that a handler that answered twice, or not at all, would show.\<close>

record req =
  body :: jsval
  params_id :: jsstring

datatype payload = Json jsval | NoBody

record res =
  statusCode :: nat
  sent :: "(nat \<times> payload) list"

definition res_init :: res where
  "res_init = \<lparr>statusCode = 200, sent = []\<rparr>"

definition res_status :: "nat \<Rightarrow> res \<Rightarrow> res" where
  "res_status n r = r\<lparr>statusCode := n\<rparr>"

definition res_json :: "jsval \<Rightarrow> res \<Rightarrow> res" where
  "res_json v r = r\<lparr>sent := sent r @ [(statusCode r, Json v)]\<rparr>"

definition res_end :: "res \<Rightarrow> res" where
  "res_end r = r\<lparr>sent := sent r @ [(statusCode r, NoBody)]\<rparr>"

text \<open>The object literal \<^verbatim>\<open>{ error: '...' }\<close>.\<close>

definition error_body :: "string \<Rightarrow> jsval" where
  "error_body m = Some (JObj [(js ''error'', JStr (js m))])"

section \<open>The validation middleware\<close>

text \<open>Reading a property that no prototype defines: an own property of an object,
  \<^verbatim>\<open>undefined\<close> on any other value.\<close>

fun get_prop :: "json \<Rightarrow> jsstring \<Rightarrow> jsval" where
  "get_prop (JObj kvs) k = map_of kvs k"
| "get_prop v k = None"

text \<open>\<^verbatim>\<open>const { name, price, category } = req.body\<close>: destructuring \<^verbatim>\<open>undefined\<close> or
  \<^verbatim>\<open>null\<close> raises a TypeError.\<close>

fun destructure :: "jsval \<Rightarrow> js_error + (jsval \<times> jsval \<times> jsval)" where
  "destructure None = Inl TypeError"
| "destructure (Some JNull) = Inl TypeError"
| "destructure (Some b) =
     Inr (get_prop b (js ''name''), get_prop b (js ''price''), get_prop b (js ''category''))"

text \<open>\<^verbatim>\<open>!v || v.trim() === ''\<close>, the condition on \<^verbatim>\<open>name\<close> and on \<^verbatim>\<open>category\<close>.\<close>

definition blank_cond :: "jsval \<Rightarrow> js_error + bool" where
  "blank_cond v =
     or_else (\<not> ToBoolean v)
       (case call_trim v of Inl e \<Rightarrow> Inl e | Inr t \<Rightarrow> Inr (t = []))"

text \<open>\<^verbatim>\<open>!price || isNaN(price) || price <= 0\<close>.\<close>

definition price_cond :: "jsval \<Rightarrow> js_error + bool" where
  "price_cond price =
     or_else (\<not> ToBoolean price)
       (case isNaN price of
          Inl e \<Rightarrow> Inl e
        | Inr nan \<Rightarrow> or_else nan (le_zero price))"

text \<open>\<^verbatim>\<open>if (c) { errors.push(m) }\<close> where evaluating \<open>c\<close> may raise.\<close>

definition push_if :: "js_error + bool \<Rightarrow> string \<Rightarrow> string list \<Rightarrow> js_error + string list" where
  "push_if c m errors =
     (case c of Inl e \<Rightarrow> Inl e | Inr b \<Rightarrow> Inr (if b then errors @ [m] else errors))"

text \<open>The object literal \<^verbatim>\<open>{ errors }\<close>.\<close>

definition errors_body :: "string list \<Rightarrow> jsval" where
  "errors_body errors = Some (JObj [(js ''errors'', JArr (map (\<lambda>m. JStr (js m)) errors))])"

text \<open>\<^verbatim>\<open>validateProduct(req, res, next)\<close>. The result is the exception that left the
  function, or the response object together with whether \<^verbatim>\<open>next()\<close> was called.\<close>

definition validateProduct :: "req \<Rightarrow> res \<Rightarrow> js_error + (res \<times> bool)" where
  "validateProduct rq rs =
     (case destructure (body rq) of
        Inl e \<Rightarrow> Inl e
      | Inr (name, price, category) \<Rightarrow>
     (case push_if (blank_cond name) ''Product name is required'' [] of
        Inl e \<Rightarrow> Inl e
      | Inr errors1 \<Rightarrow>
     (case push_if (price_cond price) ''Product price must be a positive number'' errors1 of
        Inl e \<Rightarrow> Inl e
      | Inr errors2 \<Rightarrow>
     (case push_if (blank_cond category) ''Product category is required'' errors2 of
        Inl e \<Rightarrow> Inl e
      | Inr errors \<Rightarrow>
          if length errors > 0
          then Inr (res_json (errors_body errors) (res_status 400 rs), False)
          else Inr (rs, True)))))"

section \<open>The data-access module and the five routes\<close>

text \<open>\<^verbatim>\<open>productModel\<close> is not part of the router: it is a parameter. Each of its
  functions runs on a store \<open>'s\<close> and either returns a value or raises an error of some
  type \<open>'e\<close>; awaiting a rejected promise raises its reason. The values it returns are
  ones \<^verbatim>\<open>res.json\<close> can serialise.\<close>

record ('s, 'e) productModel =
  getAllProducts :: "'s \<Rightarrow> ('e + jsval) \<times> 's"
  getProductById :: "jsstring \<Rightarrow> 's \<Rightarrow> ('e + jsval) \<times> 's"
  createProduct :: "jsval \<Rightarrow> 's \<Rightarrow> ('e + jsval) \<times> 's"
  updateProduct :: "jsstring \<Rightarrow> jsval \<Rightarrow> 's \<Rightarrow> ('e + jsval) \<times> 's"
  deleteProduct :: "jsstring \<Rightarrow> 's \<Rightarrow> ('e + jsval) \<times> 's"

text \<open>\<^verbatim>\<open>router.get('/')\<close>\<close>

definition get_all_handler :: "('s, 'e) productModel \<Rightarrow> req \<Rightarrow> res \<Rightarrow> 's \<Rightarrow> res \<times> 's" where
  "get_all_handler pm rq rs s =
     (case getAllProducts pm s of
        (Inr products, s') \<Rightarrow> (res_json products rs, s')
      | (Inl err, s') \<Rightarrow>
          (res_json (error_body ''Failed to retrieve products'') (res_status 500 rs), s'))"

text \<open>\<^verbatim>\<open>router.get('/:id')\<close>\<close>

definition get_one_handler :: "('s, 'e) productModel \<Rightarrow> req \<Rightarrow> res \<Rightarrow> 's \<Rightarrow> res \<times> 's" where
  "get_one_handler pm rq rs s =
     (case getProductById pm (params_id rq) s of
        (Inr product, s') \<Rightarrow>
          if \<not> ToBoolean product
          then (res_json (error_body ''Product not found'') (res_status 404 rs), s')
          else (res_json product rs, s')
      | (Inl err, s') \<Rightarrow>
          (res_json (error_body ''Failed to retrieve product'') (res_status 500 rs), s'))"

text \<open>The handler of \<^verbatim>\<open>router.post('/')\<close>\<close>

definition post_handler :: "('s, 'e) productModel \<Rightarrow> req \<Rightarrow> res \<Rightarrow> 's \<Rightarrow> res \<times> 's" where
  "post_handler pm rq rs s =
     (case createProduct pm (body rq) s of
        (Inr newProduct, s') \<Rightarrow> (res_json newProduct (res_status 201 rs), s')
      | (Inl err, s') \<Rightarrow>
          (res_json (error_body ''Failed to create product'') (res_status 500 rs), s'))"

text \<open>The handler of \<^verbatim>\<open>router.put('/:id')\<close>\<close>

definition put_handler :: "('s, 'e) productModel \<Rightarrow> req \<Rightarrow> res \<Rightarrow> 's \<Rightarrow> res \<times> 's" where
  "put_handler pm rq rs s =
     (case updateProduct pm (params_id rq) (body rq) s of
        (Inr updatedProduct, s') \<Rightarrow>
          if \<not> ToBoolean updatedProduct
          then (res_json (error_body ''Product not found'') (res_status 404 rs), s')
          else (res_json updatedProduct rs, s')
      | (Inl err, s') \<Rightarrow>
          (res_json (error_body ''Failed to update product'') (res_status 500 rs), s'))"

text \<open>\<^verbatim>\<open>router.delete('/:id')\<close>\<close>

definition delete_handler :: "('s, 'e) productModel \<Rightarrow> req \<Rightarrow> res \<Rightarrow> 's \<Rightarrow> res \<times> 's" where
  "delete_handler pm rq rs s =
     (case deleteProduct pm (params_id rq) s of
        (Inr success, s') \<Rightarrow>
          if \<not> ToBoolean success
          then (res_json (error_body ''Product not found'') (res_status 404 rs), s')
          else (res_end (res_status 204 rs), s')
      | (Inl err, s') \<Rightarrow>
          (res_json (error_body ''Failed to delete product'') (res_status 500 rs), s'))"

text \<open>A route is the chain of functions registered for it, run on a fresh response. Its
  result is the exception that left the chain (if any), the response object and the
  store. A route with \<^verbatim>\<open>validateProduct\<close> in front runs its handler only when the
  middleware called \<^verbatim>\<open>next()\<close>.\<close>

type_synonym 's outcome = "js_error option \<times> res \<times> 's"

definition plain :: "(req \<Rightarrow> res \<Rightarrow> 's \<Rightarrow> res \<times> 's) \<Rightarrow> req \<Rightarrow> 's \<Rightarrow> 's outcome" where
  "plain h rq s = (case h rq res_init s of (r, s') \<Rightarrow> (None, r, s'))"

definition validated :: "(req \<Rightarrow> res \<Rightarrow> 's \<Rightarrow> res \<times> 's) \<Rightarrow> req \<Rightarrow> 's \<Rightarrow> 's outcome" where
  "validated h rq s =
     (case validateProduct rq res_init of
        Inl e \<Rightarrow> (Some e, res_init, s)
      | Inr (r, next_called) \<Rightarrow>
          if next_called then (case h rq r s of (r', s') \<Rightarrow> (None, r', s'))
          else (None, r, s))"

datatype operation = GetAll | GetOne | Post | Put | Delete

fun router :: "('s, 'e) productModel \<Rightarrow> operation \<Rightarrow> req \<Rightarrow> 's \<Rightarrow> 's outcome" where
  "router pm GetAll = plain (get_all_handler pm)"
| "router pm GetOne = plain (get_one_handler pm)"
| "router pm Post = validated (post_handler pm)"
| "router pm Put = validated (put_handler pm)"
| "router pm Delete = plain (delete_handler pm)"

section \<open>Vocabulary of the properties\<close>

text \<open>The response object after exactly one response with status \<open>n\<close>.\<close>

definition replied :: "nat \<Rightarrow> payload \<Rightarrow> res" where
  "replied n p = \<lparr>statusCode = n, sent = [(n, p)]\<rparr>"

text \<open>A request body \<^verbatim>\<open>{ name, price, category }\<close>, and a request carrying a body.\<close>

definition product_body :: "json \<Rightarrow> json \<Rightarrow> json \<Rightarrow> jsval" where
  "product_body n p c = Some (JObj [(js ''name'', n), (js ''price'', p), (js ''category'', c)])"

definition request :: "jsstring \<Rightarrow> jsval \<Rightarrow> req" where
  "request i b = \<lparr>body = b, params_id = i\<rparr>"

text \<open>The calls a route makes to the data-access module are observed by wrapping the
  module: \<open>logged pm\<close> behaves as \<open>pm\<close> and appends every call, with its arguments, to
  a log kept beside the store.\<close>

datatype call =
    CallGetAll
  | CallGetById jsstring
  | CallCreate jsval
  | CallUpdate jsstring jsval
  | CallDelete jsstring

definition log_call ::
  "call \<Rightarrow> ('s \<Rightarrow> ('e + jsval) \<times> 's) \<Rightarrow> 's \<times> call list \<Rightarrow> ('e + jsval) \<times> 's \<times> call list" where
  "log_call c f sl = (case sl of (s, l) \<Rightarrow> (case f s of (r, s') \<Rightarrow> (r, s', l @ [c])))"

definition logged :: "('s, 'e) productModel \<Rightarrow> ('s \<times> call list, 'e) productModel" where
  "logged pm =
     \<lparr>getAllProducts = log_call CallGetAll (getAllProducts pm),
      getProductById = (\<lambda>i. log_call (CallGetById i) (getProductById pm i)),
      createProduct = (\<lambda>d. log_call (CallCreate d) (createProduct pm d)),
      updateProduct = (\<lambda>i d. log_call (CallUpdate i d) (updateProduct pm i d)),
      deleteProduct = (\<lambda>i. log_call (CallDelete i) (deleteProduct pm i))\<rparr>"

text \<open>A data-access module whose every call has the same result and leaves the store
  alone; it serves as a concrete module where a property is tried out.\<close>

definition const_model :: "'e + jsval \<Rightarrow> ('s, 'e) productModel" where
  "const_model r =
     \<lparr>getAllProducts = (\<lambda>s. (r, s)),
      getProductById = (\<lambda>i s. (r, s)),
      createProduct = (\<lambda>d s. (r, s)),
      updateProduct = (\<lambda>i d s. (r, s)),
      deleteProduct = (\<lambda>i s. (r, s))\<rparr>"

text \<open>Modelled from the spec: \<^verbatim>\<open>deleteProduct\<close> of the data-access module, which is not
  among the sources. It returns true and removes the record exactly when the id is
  present, and returns false when it is absent. The store maps ids to records.\<close>

definition deleteProduct_contract ::
  "jsstring \<Rightarrow> (jsstring \<rightharpoonup> json) \<Rightarrow> ('e + jsval) \<times> (jsstring \<rightharpoonup> json)" where
  "deleteProduct_contract i s =
     (if s i \<noteq> None then (Inr (Some (JBool True)), s(i := None))
      else (Inr (Some (JBool False)), s))"

text \<open>A module that keeps the contract of \<^verbatim>\<open>deleteProduct\<close> on such a store.\<close>

definition contract_model :: "(jsstring \<rightharpoonup> json, string) productModel" where
  "contract_model = (const_model (Inr None))\<lparr>deleteProduct := deleteProduct_contract\<rparr>"

subsection \<open>The validation rules in the words of the specification\<close>

text \<open>``The name is missing or empty'': no value, or the empty string.\<close>

definition missing_or_empty :: "jsval \<Rightarrow> bool" where
  "missing_or_empty v = (v = None \<or> v = Some JNull \<or> v = Some (JStr []))"

text \<open>``The price is a positive number'': a value of type number, greater than zero.\<close>

definition positive_number :: "jsval \<Rightarrow> bool" where
  "positive_number v = (case v of Some (JNum n) \<Rightarrow> num_less (Fin 0) n = Some True | _ \<Rightarrow> False)"

definition stated_violations :: "jsval \<Rightarrow> jsval \<Rightarrow> jsval \<Rightarrow> string list" where
  "stated_violations n p c =
     (if missing_or_empty n then [''Product name is required''] else []) @
     (if \<not> positive_number p then [''Product price must be a positive number''] else []) @
     (if missing_or_empty c then [''Product category is required''] else [])"

subsection \<open>The validation rules as the middleware applies them\<close>

text \<open>A name or category is rejected when it is falsy or a string of white space only.\<close>

definition blank :: "jsval \<Rightarrow> bool" where
  "blank v = (case v of Some (JStr s) \<Rightarrow> list_all is_ws s | _ \<Rightarrow> \<not> ToBoolean v)"

text \<open>A price is rejected when it is falsy, or the number it coerces to is \<^verbatim>\<open>NaN\<close> or is
  not greater than zero.\<close>

definition price_rejected :: "jsval \<Rightarrow> bool" where
  "price_rejected p =
     (\<not> ToBoolean p \<or>
      (case ToNumber p of Inl e \<Rightarrow> False | Inr n \<Rightarrow> num_less (Fin 0) n \<noteq> Some True))"

definition violations :: "jsval \<Rightarrow> jsval \<Rightarrow> jsval \<Rightarrow> string list" where
  "violations n p c =
     (if blank n then [''Product name is required''] else []) @
     (if price_rejected p then [''Product price must be a positive number''] else []) @
     (if blank c then [''Product category is required''] else [])"

text \<open>The values on which the conditions of the middleware raise no TypeError: a name
  or category that is a string or falsy, a price that is falsy or has a number.\<close>

definition text_or_falsy :: "jsval \<Rightarrow> bool" where
  "text_or_falsy v = (case v of Some (JStr s) \<Rightarrow> True | _ \<Rightarrow> \<not> ToBoolean v)"

definition coercible :: "jsval \<Rightarrow> bool" where
  "coercible p = (\<not> ToBoolean p \<or> (case ToNumber p of Inl e \<Rightarrow> False | Inr n \<Rightarrow> True))"

text \<open>The three kinds of error response: itemised validation messages with 400,
  not found with 404, a generic message with 500.\<close>

definition error_kind :: "nat \<times> payload \<Rightarrow> bool" where
  "error_kind x =
     ((\<exists>errs. errs \<noteq> [] \<and> x = (400, Json (errors_body errs))) \<or>
      x = (404, Json (error_body ''Product not found'')) \<or>
      (\<exists>m. x = (500, Json (error_body m))))"


section \<open>Auxiliary facts\<close>

lemma trim_empty_iff: "trim s = [] \<longleftrightarrow> list_all is_ws s"
proof -
  have "trim s = [] \<longleftrightarrow> (\<forall>x \<in> set (dropWhile is_ws s). is_ws x)"
    by (simp add: trim_def dropWhile_eq_Nil_conv)
  also have "\<dots> \<longleftrightarrow> dropWhile is_ws s = []"
  proof (cases "dropWhile is_ws s")
    case Nil then show ?thesis by (simp only: list.set ball_empty simp_thms)
  next
    case (Cons a l)
    then have "\<not> is_ws a" using hd_dropWhile[of is_ws s] by simp
    with Cons show ?thesis by auto
  qed
  also have "\<dots> \<longleftrightarrow> list_all is_ws s"
    by (simp add: dropWhile_eq_Nil_conv list_all_iff)
  finally show ?thesis .
qed

lemma blank_cond_eq: "text_or_falsy v \<Longrightarrow> blank_cond v = Inr (blank v)"
  by (cases v rule: ToBoolean.cases)
     (auto simp: text_or_falsy_def blank_cond_def blank_def or_else_def trim_empty_iff)

lemma price_cond_eq: "coercible p \<Longrightarrow> price_cond p = Inr (price_rejected p)"
  apply (cases "ToNumber p")
  apply (auto simp: coercible_def price_cond_def price_rejected_def or_else_def isNaN_def le_zero_def)
  subgoal for n by (cases n) auto
  done

lemma validate_eq:
  assumes "destructure (body rq) = Inr (n, p, c)" "text_or_falsy n" "coercible p" "text_or_falsy c"
  shows "validateProduct rq rs =
     (if violations n p c = [] then Inr (rs, True)
      else Inr (res_json (errors_body (violations n p c)) (res_status 400 rs), False))"
  using assms
  by (simp add: validateProduct_def blank_cond_eq price_cond_eq push_if_def violations_def)

lemma validate_next_res: "validateProduct rq rs = Inr (r, True) \<Longrightarrow> r = rs"
  by (auto simp: validateProduct_def split: sum.splits prod.splits if_splits)

lemma validate_rejected_res:
  "validateProduct rq rs = Inr (r, False) \<Longrightarrow>
   \<exists>errs. errs \<noteq> [] \<and> r = res_json (errors_body errs) (res_status 400 rs)"
  by (auto simp: validateProduct_def split: sum.splits prod.splits if_splits)

lemma replied_json_status: "res_json v (res_status n res_init) = replied n (Json v)"
  by (simp add: res_json_def res_status_def res_init_def replied_def)

lemma replied_json: "res_json v res_init = replied 200 (Json v)"
  by (simp add: res_json_def res_init_def replied_def)

lemma replied_end: "res_end (res_status n res_init) = replied n NoBody"
  by (simp add: res_end_def res_status_def res_init_def replied_def)

lemma validated_thrown:
  "validateProduct rq res_init = Inl e \<Longrightarrow> validated h rq s = (Some e, res_init, s)"
  by (simp add: validated_def)

lemma validated_rejected:
  "validateProduct rq res_init = Inr (r, False) \<Longrightarrow> validated h rq s = (None, r, s)"
  by (simp add: validated_def)

lemma validated_next:
  "validateProduct rq res_init = Inr (r, True) \<Longrightarrow>
   validated h rq s = (case h rq res_init s of (r', s') \<Rightarrow> (None, r', s'))"
  using validate_next_res[of rq res_init r] by (simp add: validated_def)

lemmas handler_defs =
  get_all_handler_def get_one_handler_def post_handler_def put_handler_def delete_handler_def

lemmas replied_simps = replied_json_status replied_json replied_end

lemmas validate_defs =
  validateProduct_def product_body_def request_def js_def blank_cond_def price_cond_def
  or_else_def push_if_def isNaN_def le_zero_def trim_def is_ws_def StringToNumber_def
  unsigned_decimal_def is_digit_def radix_int_def radix_digit_def scale10_def
  number_value_def pow2_def binary_exponent.simps round_half_even_def
  errors_body_def

lemmas rule_defs =
  violations_def blank_def price_rejected_def text_or_falsy_def coercible_def

text \<open>Rounding to a double: a literal below half the smallest double is 0, the literal
  of the smallest double keeps a positive value, and a literal beyond the largest double
  is an infinity.\<close>

lemma StringToNumber_rounds:
  "StringToNumber (js ''1e-324'') = Fin 0"
  "StringToNumber (js ''5e-324'') = Fin (1 / 2 ^ 1074)"
  "StringToNumber (js ''1e309'') = PosInf"
  "StringToNumber (js ''9007199254740993'') = Fin 9007199254740992"
  by (simp_all add: StringToNumber_def js_def trim_def is_ws_def unsigned_decimal_def
        is_digit_def radix_int_def radix_digit_def scale10_def number_value_def pow2_def
        binary_exponent.simps round_half_even_def)

text \<open>Two requests used to try the properties out: a body that passes validation and one
  that it rejects for its price.\<close>

lemma valid_example:
  "validateProduct (request i (product_body (JStr (js ''Widget'')) (JNum (Fin 10)) (JStr (js ''Tools'')))) res_init
     = Inr (res_init, True)"
  by (simp add: validate_defs)

lemma invalid_example:
  "validateProduct (request i (product_body (JStr (js ''Widget'')) (JNum (Fin (- 1))) (JStr (js ''Tools'')))) res_init
     = Inr (replied 400 (Json (errors_body [''Product price must be a positive number''])), False)"
  by (simp add: validate_defs replied_simps)

lemma router_one_response:
  assumes "router pm op rq s = (None, r, s')"
  shows "\<exists>x. sent r = [x] \<and> statusCode r = fst x \<and> (fst x \<in> {200, 201, 204} \<or> error_kind x)"
proof (cases op)
  case GetAll
  with assms show ?thesis
    by (auto simp: plain_def handler_defs replied_simps replied_def error_kind_def
             split: prod.splits sum.splits if_splits)
next
  case GetOne
  with assms show ?thesis
    by (auto simp: plain_def handler_defs replied_simps replied_def error_kind_def
             split: prod.splits sum.splits if_splits)
next
  case Delete
  with assms show ?thesis
    by (auto simp: plain_def handler_defs replied_simps replied_def error_kind_def
             split: prod.splits sum.splits if_splits)
next
  case Post
  show ?thesis
  proof (cases "validateProduct rq res_init")
    case (Inl e)
    with assms Post show ?thesis by (simp add: validated_thrown)
  next
    case (Inr a)
    obtain r0 nx where a: "a = (r0, nx)" by (cases a)
    show ?thesis
    proof (cases nx)
      case True
      with Inr a assms Post show ?thesis
        by (auto simp: validated_next handler_defs replied_simps replied_def error_kind_def
                 split: prod.splits sum.splits if_splits)
    next
      case False
      with Inr a validate_rejected_res[of rq res_init r0] assms Post show ?thesis
        by (auto simp: validated_rejected replied_simps replied_def error_kind_def)
    qed
  qed
next
  case Put
  show ?thesis
  proof (cases "validateProduct rq res_init")
    case (Inl e)
    with assms Put show ?thesis by (simp add: validated_thrown)
  next
    case (Inr a)
    obtain r0 nx where a: "a = (r0, nx)" by (cases a)
    show ?thesis
    proof (cases nx)
      case True
      with Inr a assms Put show ?thesis
        by (auto simp: validated_next handler_defs replied_simps replied_def error_kind_def
                 split: prod.splits sum.splits if_splits)
    next
      case False
      with Inr a validate_rejected_res[of rq res_init r0] assms Put show ?thesis
        by (auto simp: validated_rejected replied_simps replied_def error_kind_def)
    qed
  qed
qed

section \<open>Failures of the data layer\<close>

text \<open>C1: on each of the five operations, when the call that the handler makes to the
  data-access module raises an error, the route answers once, with status 500 and a
  fixed body \<^verbatim>\<open>{ error: ... }\<close> that does not depend on the error raised. For POST and PUT
  the handler, and with it the call, runs when the validation middleware has called
  \<^verbatim>\<open>next()\<close>.\<close>

theorem data_layer_throw_yields_500:
  "(getAllProducts pm s = (Inl err, s') \<longrightarrow>
      router pm GetAll rq s =
        (None, replied 500 (Json (error_body ''Failed to retrieve products'')), s')) \<and>
   (getProductById pm (params_id rq) s = (Inl err, s') \<longrightarrow>
      router pm GetOne rq s =
        (None, replied 500 (Json (error_body ''Failed to retrieve product'')), s')) \<and>
   (validateProduct rq res_init = Inr (res_init, True) \<and>
    createProduct pm (body rq) s = (Inl err, s') \<longrightarrow>
      router pm Post rq s =
        (None, replied 500 (Json (error_body ''Failed to create product'')), s')) \<and>
   (validateProduct rq res_init = Inr (res_init, True) \<and>
    updateProduct pm (params_id rq) (body rq) s = (Inl err, s') \<longrightarrow>
      router pm Put rq s =
        (None, replied 500 (Json (error_body ''Failed to update product'')), s')) \<and>
   (deleteProduct pm (params_id rq) s = (Inl err, s') \<longrightarrow>
      router pm Delete rq s =
        (None, replied 500 (Json (error_body ''Failed to delete product'')), s'))"
  by (simp add: plain_def validated_next handler_defs replied_simps)

theorem data_layer_throw_yields_500_witness:
  "router (const_model (Inl ''connection lost'')) GetAll
      (request (js ''7'') (product_body (JStr (js ''Widget'')) (JNum (Fin 10)) (JStr (js ''Tools'')))) (0::nat)
     = (None, replied 500 (Json (error_body ''Failed to retrieve products'')), 0) \<and>
   router (const_model (Inl ''connection lost'')) GetOne
      (request (js ''7'') (product_body (JStr (js ''Widget'')) (JNum (Fin 10)) (JStr (js ''Tools'')))) (0::nat)
     = (None, replied 500 (Json (error_body ''Failed to retrieve product'')), 0) \<and>
   router (const_model (Inl ''connection lost'')) Post
      (request (js ''7'') (product_body (JStr (js ''Widget'')) (JNum (Fin 10)) (JStr (js ''Tools'')))) (0::nat)
     = (None, replied 500 (Json (error_body ''Failed to create product'')), 0) \<and>
   router (const_model (Inl ''connection lost'')) Put
      (request (js ''7'') (product_body (JStr (js ''Widget'')) (JNum (Fin 10)) (JStr (js ''Tools'')))) (0::nat)
     = (None, replied 500 (Json (error_body ''Failed to update product'')), 0) \<and>
   router (const_model (Inl ''connection lost'')) Delete
      (request (js ''7'') (product_body (JStr (js ''Widget'')) (JNum (Fin 10)) (JStr (js ''Tools'')))) (0::nat)
     = (None, replied 500 (Json (error_body ''Failed to delete product'')), 0)"
  using data_layer_throw_yields_500
    [of "const_model (Inl ''connection lost'')" 0 "''connection lost''" 0
        "request (js ''7'') (product_body (JStr (js ''Widget'')) (JNum (Fin 10)) (JStr (js ''Tools'')))"]
    valid_example[of "js ''7''"]
  by (simp add: const_model_def)

section \<open>The validation rules\<close>

text \<open>C2, as stated, fails: the body
  \<^verbatim>\<open>{ name: "Widget", price: "10", category: "Tools" }\<close> has a price that is not a number, so
  the stated rules list the price violation, yet the middleware calls \<^verbatim>\<open>next()\<close> and
  sends nothing.\<close>

theorem stated_rules_counterexample:
  "stated_violations (Some (JStr (js ''Widget''))) (Some (JStr (js ''10''))) (Some (JStr (js ''Tools'')))
     = [''Product price must be a positive number''] \<and>
   destructure (body (request (js ''7'') (product_body (JStr (js ''Widget'')) (JStr (js ''10'')) (JStr (js ''Tools'')))))
     = Inr (Some (JStr (js ''Widget'')), Some (JStr (js ''10'')), Some (JStr (js ''Tools''))) \<and>
   validateProduct (request (js ''7'') (product_body (JStr (js ''Widget'')) (JStr (js ''10'')) (JStr (js ''Tools'')))) res_init
     = Inr (res_init, True)"
  by (simp add: validate_defs stated_violations_def missing_or_empty_def positive_number_def)

text \<open>C2, amended: for a body (not \<^verbatim>\<open>undefined\<close> or \<^verbatim>\<open>null\<close>) whose name and category
  are each falsy or a string and whose price is falsy or coerces to a number, POST and PUT
  answer 400 with \<^verbatim>\<open>{ errors }\<close> listing, in the order name, price, category, one message
  for each violated rule and nothing else; when no rule is violated the middleware sends
  nothing, calls \<^verbatim>\<open>next()\<close> and the route handler runs. A name or category violates its
  rule when it is falsy or a string that is empty after trimming white space; a price
  violates its rule when it is falsy or the number it coerces to is \<^verbatim>\<open>NaN\<close> or not greater
  than zero. The coercion is that of \<^verbatim>\<open>isNaN\<close> and \<^verbatim>\<open><=\<close>: a numeric string counts with
  the double it is read as, so \<^verbatim>\<open>"10"\<close> satisfies the rule and \<^verbatim>\<open>"1e-324"\<close>, which is
  read as 0, violates it.\<close>

theorem validation_rules:
  assumes "destructure (body rq) = Inr (n, p, c)"
    and "text_or_falsy n" and "coercible p" and "text_or_falsy c"
  shows "(violations n p c \<noteq> [] \<longrightarrow>
            router pm Post rq s = (None, replied 400 (Json (errors_body (violations n p c))), s) \<and>
            router pm Put rq s = (None, replied 400 (Json (errors_body (violations n p c))), s)) \<and>
         (violations n p c = [] \<longrightarrow>
            validateProduct rq res_init = Inr (res_init, True) \<and>
            router pm Post rq s = (case post_handler pm rq res_init s of (r, s') \<Rightarrow> (None, r, s')) \<and>
            router pm Put rq s = (case put_handler pm rq res_init s of (r, s') \<Rightarrow> (None, r, s')))"
proof -
  have v: "validateProduct rq res_init =
     (if violations n p c = [] then Inr (res_init, True)
      else Inr (replied 400 (Json (errors_body (violations n p c))), False))"
    using validate_eq[OF assms, of res_init] by (simp add: replied_simps)
  show ?thesis
  proof (cases "violations n p c = []")
    case True
    with v have "validateProduct rq res_init = Inr (res_init, True)" by simp
    with True show ?thesis by (simp add: validated_next)
  next
    case False
    with v have "validateProduct rq res_init
        = Inr (replied 400 (Json (errors_body (violations n p c))), False)" by simp
    with False show ?thesis by (simp add: validated_rejected)
  qed
qed

theorem validation_rules_witness:
  "router (const_model (Inr None :: string + jsval)) Post
      (request (js ''7'') (product_body (JStr (js '' '')) (JStr (js ''abc'')) JNull)) (0::nat)
     = (None,
        replied 400 (Json (errors_body [''Product name is required'',
           ''Product price must be a positive number'', ''Product category is required''])),
        0) \<and>
   router (const_model (Inr None :: string + jsval)) Put
      (request (js ''7'') (product_body (JStr (js ''Widget'')) (JNum (Fin 0)) (JStr (js ''Tools'')))) (0::nat)
     = (None, replied 400 (Json (errors_body [''Product price must be a positive number''])), 0) \<and>
   validateProduct
      (request (js ''7'') (product_body (JStr (js ''Widget'')) (JArr [JStr (js ''0x1F'')]) (JStr (js ''Tools''))))
      res_init = Inr (res_init, True) \<and>
   router (const_model (Inr None :: string + jsval)) Post
      (request (js ''7'') (product_body (JStr (js ''Widget'')) (JStr (js ''1e-324'')) (JStr (js ''Tools''))))
      (0::nat)
     = (None, replied 400 (Json (errors_body [''Product price must be a positive number''])), 0)"
proof -
  let ?b1 = "product_body (JStr (js '' '')) (JStr (js ''abc'')) JNull"
  let ?b4 = "product_body (JStr (js ''Widget'')) (JStr (js ''1e-324'')) (JStr (js ''Tools''))"
  have d4: "destructure (body (request (js ''7'') ?b4))
      = Inr (Some (JStr (js ''Widget'')), Some (JStr (js ''1e-324'')), Some (JStr (js ''Tools'')))"
    by (simp add: request_def product_body_def js_def)
  have v4: "violations (Some (JStr (js ''Widget''))) (Some (JStr (js ''1e-324''))) (Some (JStr (js ''Tools'')))
      = [''Product price must be a positive number'']"
    by (simp add: rule_defs validate_defs)
  have t4: "coercible (Some (JStr (js ''1e-324'')))"
    by (simp add: rule_defs)
  let ?b2 = "product_body (JStr (js ''Widget'')) (JNum (Fin 0)) (JStr (js ''Tools''))"
  let ?b3 = "product_body (JStr (js ''Widget'')) (JArr [JStr (js ''0x1F'')]) (JStr (js ''Tools''))"
  have d1: "destructure (body (request (js ''7'') ?b1))
      = Inr (Some (JStr (js '' '')), Some (JStr (js ''abc'')), Some JNull)"
    by (simp add: request_def product_body_def js_def)
  have d2: "destructure (body (request (js ''7'') ?b2))
      = Inr (Some (JStr (js ''Widget'')), Some (JNum (Fin 0)), Some (JStr (js ''Tools'')))"
    by (simp add: request_def product_body_def js_def)
  have d3: "destructure (body (request (js ''7'') ?b3))
      = Inr (Some (JStr (js ''Widget'')), Some (JArr [JStr (js ''0x1F'')]), Some (JStr (js ''Tools'')))"
    by (simp add: request_def product_body_def js_def)
  have v1: "violations (Some (JStr (js '' ''))) (Some (JStr (js ''abc''))) (Some JNull)
      = [''Product name is required'', ''Product price must be a positive number'',
         ''Product category is required'']"
    by (simp add: rule_defs validate_defs)
  have v2: "violations (Some (JStr (js ''Widget''))) (Some (JNum (Fin 0))) (Some (JStr (js ''Tools'')))
      = [''Product price must be a positive number'']"
    by (simp add: rule_defs validate_defs)
  have v3: "violations (Some (JStr (js ''Widget''))) (Some (JArr [JStr (js ''0x1F'')])) (Some (JStr (js ''Tools'')))
      = []"
    by (simp add: rule_defs validate_defs)
  have t1: "text_or_falsy (Some (JStr (js '' '')))" "coercible (Some (JStr (js ''abc'')))"
    "text_or_falsy (Some JNull)"
    by (simp_all add: rule_defs)
  have t2: "text_or_falsy (Some (JStr (js ''Widget'')))" "coercible (Some (JNum (Fin 0)))"
    "text_or_falsy (Some (JStr (js ''Tools'')))"
    by (simp_all add: rule_defs)
  have t3: "coercible (Some (JArr [JStr (js ''0x1F'')]))"
    by (simp add: rule_defs js_def)
  show ?thesis
    using validation_rules[OF d1 t1, of "const_model (Inr None :: string + jsval)" "0::nat"]
      validation_rules[OF d2 t2, of "const_model (Inr None :: string + jsval)" "0::nat"]
      validation_rules[OF d3 t2(1) t3 t2(3), of "const_model (Inr None :: string + jsval)" "0::nat"]
      validation_rules[OF d4 t2(1) t4 t2(3), of "const_model (Inr None :: string + jsval)" "0::nat"]
    by (simp add: v1 v2 v3 v4 del: router.simps)
qed

section \<open>Creating a product\<close>

text \<open>C3, as stated, fails: the body \<^verbatim>\<open>{ name: " ", price: 10, category: "Tools" }\<close> has
  a name that is a non-empty string, a price that is a positive number and a non-empty
  category, and \<^verbatim>\<open>createProduct\<close> would return normally, yet POST answers 400 with the
  name message: the middleware trims the name before comparing it with the empty
  string.\<close>

theorem create_blank_name_counterexample:
  "js '' '' \<noteq> [] \<and>
   positive_number (Some (JNum (Fin 10))) \<and>
   js ''Tools'' \<noteq> [] \<and>
   createProduct (const_model (Inr (Some (JObj [])) :: string + jsval))
      (product_body (JStr (js '' '')) (JNum (Fin 10)) (JStr (js ''Tools''))) (0::nat)
     = (Inr (Some (JObj [])), 0) \<and>
   router (const_model (Inr (Some (JObj [])) :: string + jsval)) Post
      (request [] (product_body (JStr (js '' '')) (JNum (Fin 10)) (JStr (js ''Tools'')))) (0::nat)
     = (None, replied 400 (Json (errors_body [''Product name is required''])), 0)"
  by (simp add: validate_defs positive_number_def const_model_def validated_def replied_simps)

text \<open>C3, amended: for every POST whose body has a name and a category that are strings
  not empty after trimming white space, and a price that is a number greater than zero,
  and for which \<^verbatim>\<open>createProduct\<close> returns normally, the response has status 201 and its
  body is exactly the value \<^verbatim>\<open>createProduct\<close> returned.\<close>

theorem create_valid_201:
  assumes "destructure (body rq) = Inr (Some (JStr n), Some (JNum p), Some (JStr c))"
    and "trim n \<noteq> []" and "num_less (Fin 0) p = Some True" and "trim c \<noteq> []"
    and "createProduct pm (body rq) s = (Inr v, s')"
  shows "router pm Post rq s = (None, replied 201 (Json v), s')"
proof -
  have "violations (Some (JStr n)) (Some (JNum p)) (Some (JStr c)) = []"
    using assms(2-4) by (auto simp: rule_defs trim_empty_iff)
  moreover have "text_or_falsy (Some (JStr n))" "coercible (Some (JNum p))"
    "text_or_falsy (Some (JStr c))"
    by (simp_all add: rule_defs)
  ultimately have "validateProduct rq res_init = Inr (res_init, True)"
    using validate_eq[OF assms(1), of res_init] by simp
  then show ?thesis
    using assms(5) by (simp add: validated_next post_handler_def replied_simps)
qed

theorem create_valid_201_witness:
  "router (const_model (Inr (Some (JObj [(js ''id'', JNum (Fin 1))])) :: string + jsval)) Post
      (request [] (product_body (JStr (js ''Widget'')) (JNum (Fin 10)) (JStr (js ''Tools'')))) (0::nat)
     = (None, replied 201 (Json (Some (JObj [(js ''id'', JNum (Fin 1))]))), 0)"
proof -
  let ?rq = "request [] (product_body (JStr (js ''Widget'')) (JNum (Fin 10)) (JStr (js ''Tools'')))"
  let ?pm = "const_model (Inr (Some (JObj [(js ''id'', JNum (Fin 1))])) :: string + jsval)
               :: (nat, string) productModel"
  have d: "destructure (body ?rq)
      = Inr (Some (JStr (js ''Widget'')), Some (JNum (Fin 10)), Some (JStr (js ''Tools'')))"
    by (simp add: request_def product_body_def js_def)
  have n: "trim (js ''Widget'') \<noteq> []" and c: "trim (js ''Tools'') \<noteq> []"
    by (simp_all add: trim_def js_def is_ws_def)
  have p: "num_less (Fin 0) (Fin 10) = Some True" by simp
  have k: "createProduct ?pm (body ?rq) 0 = (Inr (Some (JObj [(js ''id'', JNum (Fin 1))])), 0)"
    by (simp add: const_model_def)
  show ?thesis by (rule create_valid_201[OF d n p c k])
qed

section \<open>Fetching one product\<close>

text \<open>C4: for every id, when \<^verbatim>\<open>getProductById\<close> returns no product (\<^verbatim>\<open>undefined\<close> or
  \<^verbatim>\<open>null\<close>) GET \<^verbatim>\<open>/products/:id\<close> answers 404 with the error body, and when it returns a
  product (an object) the response carries that product as its body.\<close>

theorem get_by_id_found_or_404:
  assumes "getProductById pm (params_id rq) s = (Inr v, s')"
  shows "(v = None \<or> v = Some JNull \<longrightarrow>
            router pm GetOne rq s = (None, replied 404 (Json (error_body ''Product not found'')), s')) \<and>
         (\<forall>kvs. v = Some (JObj kvs) \<longrightarrow>
            router pm GetOne rq s = (None, replied 200 (Json v), s'))"
  using assms by (auto simp: plain_def get_one_handler_def replied_simps)

theorem get_by_id_found_or_404_witness:
  "router (const_model (Inr None :: string + jsval)) GetOne (request (js ''7'') None) (0::nat)
     = (None, replied 404 (Json (error_body ''Product not found'')), 0) \<and>
   router (const_model (Inr (Some JNull) :: string + jsval)) GetOne (request (js ''7'') None) (0::nat)
     = (None, replied 404 (Json (error_body ''Product not found'')), 0) \<and>
   router (const_model (Inr (Some (JObj [(js ''id'', JNum (Fin 7))])) :: string + jsval)) GetOne
      (request (js ''7'') None) (0::nat)
     = (None, replied 200 (Json (Some (JObj [(js ''id'', JNum (Fin 7))]))), 0)"
proof -
  let ?rq = "request (js ''7'') None"
  have a: "getProductById (const_model (Inr None :: string + jsval)) (params_id ?rq) (0::nat)
      = (Inr None, 0)"
    by (simp add: const_model_def)
  have b: "getProductById (const_model (Inr (Some JNull) :: string + jsval)) (params_id ?rq) (0::nat)
      = (Inr (Some JNull), 0)"
    by (simp add: const_model_def)
  have c: "getProductById (const_model (Inr (Some (JObj [(js ''id'', JNum (Fin 7))])) :: string + jsval))
      (params_id ?rq) (0::nat) = (Inr (Some (JObj [(js ''id'', JNum (Fin 7))])), 0)"
    by (simp add: const_model_def)
  show ?thesis
    using get_by_id_found_or_404[OF a] get_by_id_found_or_404[OF b] get_by_id_found_or_404[OF c]
    by (simp del: router.simps)
qed

section \<open>Deleting a product\<close>

text \<open>C5: when \<^verbatim>\<open>deleteProduct\<close> keeps its contract and the id is in the store, a first
  DELETE answers 204 without a body and removes the record, and a second DELETE of the
  same id answers 404. For any data-access module whose \<^verbatim>\<open>deleteProduct\<close> returns a
  value, DELETE answers 204 exactly when that value is truthy (success) and 404 exactly
  when it is not.\<close>

theorem delete_204_then_404:
  "(deleteProduct pm = deleteProduct_contract \<and> s (params_id rq) \<noteq> None \<longrightarrow>
      router pm Delete rq s = (None, replied 204 NoBody, s(params_id rq := None)) \<and>
      router pm Delete rq (s(params_id rq := None))
        = (None, replied 404 (Json (error_body ''Product not found'')), s(params_id rq := None))) \<and>
   (deleteProduct pm' (params_id rq) t = (Inr v, t') \<longrightarrow>
      (router pm' Delete rq t = (None, replied 204 NoBody, t') \<longleftrightarrow> ToBoolean v) \<and>
      (router pm' Delete rq t = (None, replied 404 (Json (error_body ''Product not found'')), t')
         \<longleftrightarrow> \<not> ToBoolean v))"
  by (auto simp: plain_def delete_handler_def replied_simps deleteProduct_contract_def replied_def)



theorem delete_204_then_404_witness:
  "router contract_model Delete (request (js ''7'') None)
      [js ''7'' \<mapsto> JObj [(js ''name'', JStr (js ''Widget''))]]
     = (None, replied 204 NoBody, Map.empty) \<and>
   router contract_model Delete (request (js ''7'') None) Map.empty
     = (None, replied 404 (Json (error_body ''Product not found'')), Map.empty) \<and>
   router (const_model (Inr (Some (JNum (Fin 0))) :: string + jsval)) Delete
      (request (js ''7'') None) (0::nat)
     = (None, replied 404 (Json (error_body ''Product not found'')), 0)"
proof -
  let ?rq = "request (js ''7'') None"
  let ?s = "[js ''7'' \<mapsto> JObj [(js ''name'', JStr (js ''Widget''))]]"
  let ?pm' = "const_model (Inr (Some (JNum (Fin 0))) :: string + jsval) :: (nat, string) productModel"
  have c: "deleteProduct contract_model = deleteProduct_contract"
    by (simp add: contract_model_def)
  have p: "?s (params_id ?rq) \<noteq> None"
    by (simp add: request_def)
  have u: "?s(params_id ?rq := None) = Map.empty"
    by (simp add: request_def)
  have d: "deleteProduct ?pm' (params_id ?rq) 0 = (Inr (Some (JNum (Fin 0))), 0)"
    by (simp add: const_model_def)
  have f: "\<not> ToBoolean (Some (JNum (Fin 0)))" by simp
  show ?thesis
    using delete_204_then_404[of contract_model ?s ?rq ?pm' 0 "Some (JNum (Fin 0))" 0] c p d f
    by (simp add: u del: router.simps)
qed

section \<open>Updating a product\<close>

text \<open>C6: for every PUT whose body passes validation, when \<^verbatim>\<open>updateProduct\<close> returns no
  product (\<^verbatim>\<open>undefined\<close> or \<^verbatim>\<open>null\<close>) the response is 404, and when it returns a
  product the response body is exactly that product. A body that validation rejects
  receives the 400 response of the middleware whatever \<^verbatim>\<open>updateProduct\<close> would do, the
  store left as it was: validation runs before the lookup.\<close>

theorem update_validated_then_404:
  "(validateProduct rq res_init = Inr (res_init, True) \<and>
    updateProduct pm (params_id rq) (body rq) s = (Inr v, s') \<longrightarrow>
      (v = None \<or> v = Some JNull \<longrightarrow>
         router pm Put rq s = (None, replied 404 (Json (error_body ''Product not found'')), s')) \<and>
      (\<forall>kvs. v = Some (JObj kvs) \<longrightarrow>
         router pm Put rq s = (None, replied 200 (Json v), s'))) \<and>
   (validateProduct rq res_init = Inr (r, False) \<longrightarrow>
      router pm Put rq s = (None, r, s) \<and>
      (\<exists>errs. errs \<noteq> [] \<and> r = replied 400 (Json (errors_body errs))))"
proof -
  have "\<exists>errs. errs \<noteq> [] \<and> r = replied 400 (Json (errors_body errs))"
    if "validateProduct rq res_init = Inr (r, False)"
    using validate_rejected_res[OF that] by (simp add: replied_simps)
  then show ?thesis
    by (auto simp: validated_next validated_rejected put_handler_def replied_simps)
qed

theorem update_validated_then_404_witness:
  "router (const_model (Inr None :: string + jsval)) Put
      (request (js ''7'') (product_body (JStr (js ''Widget'')) (JNum (Fin 10)) (JStr (js ''Tools'')))) (0::nat)
     = (None, replied 404 (Json (error_body ''Product not found'')), 0) \<and>
   router (const_model (Inr (Some (JObj [(js ''id'', JNum (Fin 7))])) :: string + jsval)) Put
      (request (js ''7'') (product_body (JStr (js ''Widget'')) (JNum (Fin 10)) (JStr (js ''Tools'')))) (0::nat)
     = (None, replied 200 (Json (Some (JObj [(js ''id'', JNum (Fin 7))]))), 0) \<and>
   router (const_model (Inr None :: string + jsval)) Put
      (request (js ''7'') (product_body (JStr (js ''Widget'')) (JNum (Fin (- 1))) (JStr (js ''Tools'')))) (0::nat)
     = (None, replied 400 (Json (errors_body [''Product price must be a positive number''])), 0)"
proof -
  let ?ok = "request (js ''7'') (product_body (JStr (js ''Widget'')) (JNum (Fin 10)) (JStr (js ''Tools'')))"
  let ?bad = "request (js ''7'') (product_body (JStr (js ''Widget'')) (JNum (Fin (- 1))) (JStr (js ''Tools'')))"
  let ?absent = "const_model (Inr None :: string + jsval) :: (nat, string) productModel"
  let ?found = "const_model (Inr (Some (JObj [(js ''id'', JNum (Fin 7))])) :: string + jsval)
                  :: (nat, string) productModel"
  have a: "updateProduct ?absent (params_id ?ok) (body ?ok) 0 = (Inr None, 0)"
    by (simp add: const_model_def)
  have b: "updateProduct ?found (params_id ?ok) (body ?ok) 0
      = (Inr (Some (JObj [(js ''id'', JNum (Fin 7))])), 0)"
    by (simp add: const_model_def)
  show ?thesis
    using update_validated_then_404[where rq = ?ok and pm = ?absent and s = 0 and v = None and s' = 0]
      update_validated_then_404[where rq = ?ok and pm = ?found and s = 0
         and v = "Some (JObj [(js ''id'', JNum (Fin 7))])" and s' = 0]
      update_validated_then_404[where rq = ?bad and pm = ?absent and s = 0
         and r = "replied 400 (Json (errors_body [''Product price must be a positive number'']))"]
      a b valid_example[of "js ''7''"] invalid_example[of "js ''7''"]
    by (simp del: router.simps)
qed

section \<open>The kinds of response\<close>

text \<open>C7 fails on the code: for the body \<^verbatim>\<open>{ name: 5, price: 10, category: "Tools" }\<close>
  the name is truthy and not a string, \<^verbatim>\<open>name.trim\<close> is not a function, and the
  TypeError leaves \<^verbatim>\<open>validateProduct\<close>: POST and PUT end with an exception and no
  response sent by the route. (When no exception leaves a route, it has sent exactly one
  response, with status 200, 201 or 204 or of one of the three error kinds: lemma
  \<open>router_one_response\<close>.)\<close>

theorem validation_type_error_escapes:
  "validateProduct (request i (product_body (JNum (Fin 5)) (JNum (Fin 10)) (JStr (js ''Tools'')))) res_init
     = Inl TypeError \<and>
   router pm Post (request i (product_body (JNum (Fin 5)) (JNum (Fin 10)) (JStr (js ''Tools'')))) s
     = (Some TypeError, res_init, s) \<and>
   router pm Put (request i (product_body (JNum (Fin 5)) (JNum (Fin 10)) (JStr (js ''Tools'')))) s
     = (Some TypeError, res_init, s) \<and>
   sent res_init = []"
  by (simp add: validated_def validate_defs res_init_def)

theorem validation_type_error_escapes_witness:
  "router (const_model (Inr None :: string + jsval)) Post
      (request (js ''7'') (product_body (JNum (Fin 5)) (JNum (Fin 10)) (JStr (js ''Tools'')))) (0::nat)
     = (Some TypeError, res_init, 0) \<and>
   router (const_model (Inr None :: string + jsval)) Put
      (request (js ''7'') (product_body (JNum (Fin 5)) (JNum (Fin 10)) (JStr (js ''Tools'')))) (0::nat)
     = (Some TypeError, res_init, 0)"
  using validation_type_error_escapes
    [where i = "js ''7''" and pm = "const_model (Inr None :: string + jsval)" and s = "0::nat"]
  by blast

section \<open>Validation before any call\<close>

text \<open>C8: for every POST or PUT whose body validation rejects, the response is the 400
  of the middleware, the store is unchanged whatever the data-access module is, and the
  log of calls made to the module is unchanged: neither \<^verbatim>\<open>createProduct\<close> nor
  \<^verbatim>\<open>updateProduct\<close> is invoked.\<close>

theorem rejected_body_makes_no_call:
  assumes "validateProduct rq res_init = Inr (r, False)"
  shows "(\<exists>errs. errs \<noteq> [] \<and> r = replied 400 (Json (errors_body errs))) \<and>
         router pm Post rq s = (None, r, s) \<and>
         router pm Put rq s = (None, r, s) \<and>
         router (logged pm) Post rq (s, l) = (None, r, s, l) \<and>
         router (logged pm) Put rq (s, l) = (None, r, s, l)"
  using assms validate_rejected_res[OF assms] by (simp add: validated_rejected replied_simps)

theorem rejected_body_makes_no_call_witness:
  "router (logged (const_model (Inl ''connection lost''))) Post
      (request (js ''7'') (product_body (JStr (js ''Widget'')) (JNum (Fin (- 1))) (JStr (js ''Tools''))))
      (0::nat, [])
     = (None, replied 400 (Json (errors_body [''Product price must be a positive number''])), 0, []) \<and>
   router (logged (const_model (Inl ''connection lost''))) Put
      (request (js ''7'') (product_body (JStr (js ''Widget'')) (JNum (Fin (- 1))) (JStr (js ''Tools''))))
      (0::nat, [])
     = (None, replied 400 (Json (errors_body [''Product price must be a positive number''])), 0, [])"
  using rejected_body_makes_no_call[OF invalid_example[of "js ''7''"],
          of "const_model (Inl ''connection lost'')" "0::nat" "[]"]
  by (simp del: router.simps)

section \<open>White space\<close>

text \<open>C9 fails on the code: the body \<^verbatim>\<open>{ name: "   ", price: 10, category: 5 }\<close> has a
  name of white space only, yet no 400 is sent: the category is truthy and not a string,
  so \<^verbatim>\<open>category.trim()\<close> raises a TypeError that leaves the middleware. (When the
  conditions raise nothing, a name or category of white space only does give 400 with
  its message: lemma \<open>blank_field_rejected\<close>.)\<close>

theorem blank_name_type_error:
  "list_all is_ws (js ''   '') \<and>
   validateProduct (request i (product_body (JStr (js ''   '')) (JNum (Fin 10)) (JNum (Fin 5)))) res_init
     = Inl TypeError \<and>
   router pm Post (request i (product_body (JStr (js ''   '')) (JNum (Fin 10)) (JNum (Fin 5)))) s
     = (Some TypeError, res_init, s)"
  by (simp add: validated_def validate_defs)

theorem blank_name_type_error_witness:
  "validateProduct
      (request (js ''7'') (product_body (JStr (js ''   '')) (JNum (Fin 10)) (JNum (Fin 5)))) res_init
     = Inl TypeError \<and>
   router (const_model (Inr None :: string + jsval)) Post
      (request (js ''7'') (product_body (JStr (js ''   '')) (JNum (Fin 10)) (JNum (Fin 5)))) (0::nat)
     = (Some TypeError, res_init, 0)"
  using blank_name_type_error
    [where i = "js ''7''" and pm = "const_model (Inr None :: string + jsval)" and s = "0::nat"]
  by blast

lemma blank_field_rejected:
  assumes "destructure (body rq) = Inr (n, p, c)"
    and "text_or_falsy n" and "coercible p" and "text_or_falsy c"
    and "n = Some (JStr x) \<and> list_all is_ws x \<or> c = Some (JStr y) \<and> list_all is_ws y"
  shows "\<exists>errs. validateProduct rq res_init = Inr (replied 400 (Json (errors_body errs)), False) \<and>
           (n = Some (JStr x) \<and> list_all is_ws x \<longrightarrow> ''Product name is required'' \<in> set errs) \<and>
           (c = Some (JStr y) \<and> list_all is_ws y \<longrightarrow> ''Product category is required'' \<in> set errs)"
proof -
  have "violations n p c \<noteq> []" using assms(5) by (auto simp: violations_def blank_def)
  then have "validateProduct rq res_init
      = Inr (replied 400 (Json (errors_body (violations n p c))), False)"
    using validate_eq[OF assms(1-4), of res_init] by (simp add: replied_simps)
  moreover have "n = Some (JStr x) \<and> list_all is_ws x \<longrightarrow>
      ''Product name is required'' \<in> set (violations n p c)"
    by (auto simp: violations_def blank_def)
  moreover have "c = Some (JStr y) \<and> list_all is_ws y \<longrightarrow>
      ''Product category is required'' \<in> set (violations n p c)"
    by (auto simp: violations_def blank_def)
  ultimately show ?thesis by blast
qed

section \<open>Coercion of the price\<close>

text \<open>C10: the body \<^verbatim>\<open>{ name: "Widget", price: "10", category: "Tools" }\<close>, whose price is
  a string and not a number, passes validation, and POST calls \<^verbatim>\<open>createProduct\<close>, PUT
  calls \<^verbatim>\<open>updateProduct\<close>, exactly once and with that body unchanged. In general the
  price condition accepts every truthy value whose numeric coercion is greater than
  zero.\<close>

theorem numeric_string_price_accepted:
  "validateProduct (request i (product_body (JStr (js ''Widget'')) (JStr (js ''10'')) (JStr (js ''Tools'')))) res_init
     = Inr (res_init, True) \<and>
   snd (snd (snd (router (logged pm) Post
      (request i (product_body (JStr (js ''Widget'')) (JStr (js ''10'')) (JStr (js ''Tools'')))) (s, []))))
     = [CallCreate (product_body (JStr (js ''Widget'')) (JStr (js ''10'')) (JStr (js ''Tools'')))] \<and>
   snd (snd (snd (router (logged pm) Put
      (request i (product_body (JStr (js ''Widget'')) (JStr (js ''10'')) (JStr (js ''Tools'')))) (s, []))))
     = [CallUpdate i (product_body (JStr (js ''Widget'')) (JStr (js ''10'')) (JStr (js ''Tools'')))] \<and>
   (\<forall>p n. ToBoolean p \<and> ToNumber p = Inr n \<and> num_less (Fin 0) n = Some True
      \<longrightarrow> price_cond p = Inr False)"
proof -
  let ?rq = "request i (product_body (JStr (js ''Widget'')) (JStr (js ''10'')) (JStr (js ''Tools'')))"
  have v: "validateProduct ?rq res_init = Inr (res_init, True)"
    by (simp add: validate_defs)
  have b: "body ?rq = product_body (JStr (js ''Widget'')) (JStr (js ''10'')) (JStr (js ''Tools''))"
    and i: "params_id ?rq = i"
    by (simp_all add: request_def)
  have c: "snd (snd (snd (router (logged pm) Post ?rq (s, [])))) = [CallCreate (body ?rq)]"
    by (simp add: validated_next[OF v] post_handler_def logged_def log_call_def
             split: prod.splits sum.splits)
  have u: "snd (snd (snd (router (logged pm) Put ?rq (s, []))))
      = [CallUpdate (params_id ?rq) (body ?rq)]"
    by (simp add: validated_next[OF v] put_handler_def logged_def log_call_def
             split: prod.splits sum.splits)
  have g: "price_cond p = Inr False"
    if "ToBoolean p" "ToNumber p = Inr n" "num_less (Fin 0) n = Some True" for p n
    using that by (cases n) (auto simp: price_cond_def or_else_def isNaN_def le_zero_def)
  from v c u g show ?thesis unfolding b i by blast
qed

theorem numeric_string_price_accepted_witness:
  "validateProduct
      (request (js ''7'') (product_body (JStr (js ''Widget'')) (JStr (js ''10'')) (JStr (js ''Tools''))))
      res_init = Inr (res_init, True) \<and>
   snd (snd (snd (router (logged (const_model (Inr None :: string + jsval))) Post
      (request (js ''7'') (product_body (JStr (js ''Widget'')) (JStr (js ''10'')) (JStr (js ''Tools''))))
      (0::nat, []))))
     = [CallCreate (product_body (JStr (js ''Widget'')) (JStr (js ''10'')) (JStr (js ''Tools'')))] \<and>
   price_cond (Some (JArr [JNum (Fin 5)])) = Inr False"
proof -
  have "ToBoolean (Some (JArr [JNum (Fin 5)]))"
    and "ToNumber (Some (JArr [JNum (Fin 5)])) = Inr (Fin 5)"
    and "num_less (Fin 0) (Fin 5) = Some True"
    by simp_all
  then show ?thesis
    using numeric_string_price_accepted
      [where i = "js ''7''" and pm = "const_model (Inr None :: string + jsval)" and s = "0::nat"]
    by blast
qed

end
